theory Spec2Isabelle
  imports Complex_Main
begin

section \<open>The notebook \<open>gathering_system_information.ipynb\<close>\<close>

text \<open>
  The notebook is a sequence of code cells that call a quantum-backend library and print
  or display what it returns.  The library is not part of the notebook: it is a parameter
  of the model (the record \<open>sdk\<close> below).  Every call into it may raise, may return any
  value of its documented type, and may change hidden library state (the component
  \<open>world\<close> of the session), so nothing is assumed about the library beyond the types of
  its results.

  Python values that the notebook handles are values of \<open>pyval\<close>; library objects
  (backend, configuration, properties, defaults, instruction map, channels, schedules,
  figures) are opaque handles of type \<open>'o\<close>.  Python floats are modelled by \<open>real\<close>:
  the products below are exact products, rounding of the machine format is not modelled.
\<close>

subsection \<open>Values, errors and the record of external calls\<close>

datatype 'o pyval =
    PNone
  | PInt int
  | PFloat real
  | PStr string
  | PBool bool
  | PObj 'o
  | PList "'o pyval list"

text \<open>An exception is a \<open>NameError\<close> or \<open>IndexError\<close> of the interpreter, or whatever the
  library raised.\<close>

datatype 'x pyerr = NameError string | IndexError | Raised 'x

text \<open>The library operations that the notebook uses, one constructor per attribute or
  method that occurs in a code cell.\<close>

datatype op =
    Op_import_mock
  | Op_FakeAlmaden
  | Op_configuration
  | Op_backend_name
  | Op_backend_version
  | Op_n_qubits
  | Op_open_pulse
  | Op_basis_gates
  | Op_dt
  | Op_meas_levels
  | Op_dtm
  | Op_meas_map
  | Op_drive
  | Op_measure
  | Op_acquire
  | Op_properties
  | Op_t1
  | Op_t2
  | Op_gate_error
  | Op_gate_length
  | Op_frequency
  | Op_defaults
  | Op_qubit_freq_est
  | Op_meas_freq_est
  | Op_instruction_schedule_map
  | Op_str
  | Op_get
  | Op_draw
  | Op_has
  | Op_import_jupyter
  | Op_qiskit_version_table
  | Op_qiskit_copyright

datatype ('o, 'x) outcome = Returned "'o pyval" | Threw 'x

text \<open>One entry of the call log: the operation, its arguments (the receiver first), and
  what came back.\<close>

datatype ('o, 'x) event =
  Event (ev_op: op) (ev_args: "'o pyval list") (ev_outcome: "('o, 'x) outcome")

text \<open>What \<open>print\<close> received: the result of \<open>template.format(args)\<close>, kept as the template
  and its arguments, or a plain string.\<close>

datatype 'o printed = Formatted string "'o pyval list" | Plain string

subsection \<open>The library interface\<close>

type_synonym ('a, 'x, 'w) ext = "'w \<Rightarrow> ('x + 'a) \<times> 'w"

record ('o, 'x, 'w) sdk =
  import_mock :: "(unit, 'x, 'w) ext"
  FakeAlmaden :: "('o, 'x, 'w) ext"
  configuration :: "'o \<Rightarrow> ('o, 'x, 'w) ext"
  backend_name :: "'o \<Rightarrow> (string, 'x, 'w) ext"
  backend_version :: "'o \<Rightarrow> (string, 'x, 'w) ext"
  n_qubits :: "'o \<Rightarrow> (int, 'x, 'w) ext"
  open_pulse :: "'o \<Rightarrow> (bool, 'x, 'w) ext"
  basis_gates :: "'o \<Rightarrow> (string list, 'x, 'w) ext"
  dt :: "'o \<Rightarrow> (real, 'x, 'w) ext"
  meas_levels :: "'o \<Rightarrow> (int list, 'x, 'w) ext"
  dtm :: "'o \<Rightarrow> (real, 'x, 'w) ext"
  meas_map :: "'o \<Rightarrow> (int list list, 'x, 'w) ext"
  drive :: "'o \<Rightarrow> int \<Rightarrow> ('o, 'x, 'w) ext"
  measure_channel :: "'o \<Rightarrow> int \<Rightarrow> ('o, 'x, 'w) ext"
  acquire :: "'o \<Rightarrow> int \<Rightarrow> ('o, 'x, 'w) ext"
  properties :: "'o \<Rightarrow> ('o, 'x, 'w) ext"
  t1 :: "'o \<Rightarrow> int \<Rightarrow> (real, 'x, 'w) ext"
  t2 :: "'o \<Rightarrow> int \<Rightarrow> (real, 'x, 'w) ext"
  gate_error :: "'o \<Rightarrow> string \<Rightarrow> int \<Rightarrow> (real, 'x, 'w) ext"
  gate_length :: "'o \<Rightarrow> string \<Rightarrow> int \<Rightarrow> (real, 'x, 'w) ext"
  frequency :: "'o \<Rightarrow> int \<Rightarrow> (real, 'x, 'w) ext"
  defaults_call :: "'o \<Rightarrow> ('o, 'x, 'w) ext"
  qubit_freq_est :: "'o \<Rightarrow> (real list, 'x, 'w) ext"
  meas_freq_est :: "'o \<Rightarrow> (real list, 'x, 'w) ext"
  instruction_schedule_map :: "'o \<Rightarrow> ('o, 'x, 'w) ext"
  str_call :: "'o \<Rightarrow> (string, 'x, 'w) ext"
  get :: "'o \<Rightarrow> string \<Rightarrow> 'o pyval \<Rightarrow> (string \<times> 'o pyval) list \<Rightarrow> ('o, 'x, 'w) ext"
  draw :: "'o \<Rightarrow> ('o, 'x, 'w) ext"
  has :: "'o \<Rightarrow> string \<Rightarrow> 'o pyval \<Rightarrow> (bool, 'x, 'w) ext"
  import_jupyter :: "(unit, 'x, 'w) ext"
  qiskit_version_table :: "(unit, 'x, 'w) ext"
  qiskit_copyright :: "(unit, 'x, 'w) ext"

subsection \<open>The interactive session\<close>

text \<open>The names the notebook binds at top level, the text printed so far, the values
  displayed as cell results, the log of library calls, and the library's hidden state.\<close>

record ('o, 'x, 'w) session =
  backend :: "'o option"
  config :: "'o option"
  props :: "'o option"
  defaults :: "'o option"
  q0_freq :: "real option"
  q0_meas_freq :: "real option"
  GHz :: "real option"
  inst_map :: "'o option"
  measure_schedule :: "'o option"
  stdout :: "'o printed list"
  out :: "'o pyval list"
  log :: "('o, 'x) event list"
  world :: 'w

definition fresh :: "'w \<Rightarrow> ('o, 'x, 'w) session" where
  "fresh w = \<lparr> backend = None, config = None, props = None, defaults = None,
     q0_freq = None, q0_meas_freq = None, GHz = None, inst_map = None,
     measure_schedule = None, stdout = [], out = [], log = [], world = w \<rparr>"

type_synonym ('a, 'o, 'x, 'w) py =
  "('o, 'x, 'w) session \<Rightarrow> ('x pyerr + 'a) \<times> ('o, 'x, 'w) session"

definition return_py :: "'a \<Rightarrow> ('a, 'o, 'x, 'w) py" where
  "return_py v = (\<lambda>s. (Inr v, s))"

definition raise_py :: "'x pyerr \<Rightarrow> ('a, 'o, 'x, 'w) py" where
  "raise_py e = (\<lambda>s. (Inl e, s))"

text \<open>Sequencing: an exception ends the cell at once; the session keeps what was done
  before it.\<close>

definition bind_py :: "('a, 'o, 'x, 'w) py \<Rightarrow> ('a \<Rightarrow> ('b, 'o, 'x, 'w) py) \<Rightarrow> ('b, 'o, 'x, 'w) py" where
  "bind_py m f = (\<lambda>s. case m s of (Inl e, s') \<Rightarrow> (Inl e, s') | (Inr v, s') \<Rightarrow> f v s')"

definition then_py :: "(unit, 'o, 'x, 'w) py \<Rightarrow> ('b, 'o, 'x, 'w) py \<Rightarrow> ('b, 'o, 'x, 'w) py" where
  "then_py m k = bind_py m (\<lambda>_. k)"

text \<open>A call into the library: it runs on the library's hidden state, is written to the
  log with its outcome, and an exception of the library becomes the exception of the
  calling expression.\<close>

definition call ::
  "op \<Rightarrow> 'o pyval list \<Rightarrow> ('a \<Rightarrow> 'o pyval) \<Rightarrow> ('a, 'x, 'w) ext \<Rightarrow> ('a, 'o, 'x, 'w) py" where
  "call f args wrap ext = (\<lambda>s.
     case ext (world s) of
       (Inl x, w') \<Rightarrow> (Inl (Raised x), s\<lparr> log := log s @ [Event f args (Threw x)], world := w' \<rparr>)
     | (Inr v, w') \<Rightarrow> (Inr v, s\<lparr> log := log s @ [Event f args (Returned (wrap v))], world := w' \<rparr>))"

text \<open>Reading a top-level name: \<open>NameError\<close> when nothing is bound to it.\<close>

definition read_name ::
  "string \<Rightarrow> (('o, 'x, 'w) session \<Rightarrow> 'a option) \<Rightarrow> ('a, 'o, 'x, 'w) py" where
  "read_name n sel = (\<lambda>s. case sel s of None \<Rightarrow> (Inl (NameError n), s) | Some v \<Rightarrow> (Inr v, s))"

definition assign ::
  "(('o, 'x, 'w) session \<Rightarrow> ('o, 'x, 'w) session) \<Rightarrow> (unit, 'o, 'x, 'w) py" where
  "assign upd = (\<lambda>s. (Inr (), upd s))"

definition print_py :: "'o printed \<Rightarrow> (unit, 'o, 'x, 'w) py" where
  "print_py l = (\<lambda>s. (Inr (), s\<lparr> stdout := stdout s @ [l] \<rparr>))"

text \<open>The value of a cell's last expression is shown as the cell's result.\<close>

definition display :: "'o pyval \<Rightarrow> (unit, 'o, 'x, 'w) py" where
  "display v = (\<lambda>s. (Inr (), s\<lparr> out := out s @ [v] \<rparr>))"

text \<open>\<open>xs[i]\<close> on a list: negative indices count from the end, anything outside raises
  \<open>IndexError\<close>.\<close>

definition getitem :: "'a list \<Rightarrow> int \<Rightarrow> ('a, 'o, 'x, 'w) py" where
  "getitem xs i =
     (if 0 \<le> i \<and> i < int (length xs) then return_py (xs ! nat i)
      else if - int (length xs) \<le> i \<and> i < 0 then return_py (xs ! nat (int (length xs) + i))
      else raise_py IndexError)"

text \<open>\<open>range(n)\<close> is \<open>0, 1, ..., n - 1\<close>, empty when \<open>n \<le> 0\<close>.\<close>

definition range_py :: "int \<Rightarrow> int list" where
  "range_py n = [0..n - 1]"

definition PStrs :: "string list \<Rightarrow> 'o pyval" where
  "PStrs xs = PList (map PStr xs)"

definition PInts :: "int list \<Rightarrow> 'o pyval" where
  "PInts xs = PList (map PInt xs)"

definition PIntss :: "int list list \<Rightarrow> 'o pyval" where
  "PIntss xss = PList (map PInts xss)"

definition PFloats :: "real list \<Rightarrow> 'o pyval" where
  "PFloats xs = PList (map PFloat xs)"

definition PUnit :: "unit \<Rightarrow> 'o pyval" where
  "PUnit u = PNone"

subsection \<open>The code cells\<close>

text \<open>Each cell is given in the order in which Python evaluates it: a name is read when
  the expression that mentions it is evaluated, arguments are evaluated left to right,
  and the condition of a conditional expression before its branches.\<close>

definition kw :: "(string \<times> 'o pyval) list \<Rightarrow> 'o pyval list" where
  "kw kwargs = map (\<lambda>(k, v). PList [PStr k, v]) kwargs"

text \<open>\<open>from qiskit.test.mock import FakeAlmaden\<close>, \<open>backend = FakeAlmaden()\<close>\<close>

definition cell_backend :: "('o, 'x, 'w) sdk \<Rightarrow> (unit, 'o, 'x, 'w) py" where
  "cell_backend sdk =
     bind_py (call Op_import_mock [] PUnit (import_mock sdk)) (\<lambda>_.
     bind_py (call Op_FakeAlmaden [] PObj (FakeAlmaden sdk)) (\<lambda>b.
     assign (\<lambda>s. s\<lparr> backend := Some b \<rparr>)))"

text \<open>The expression \<open>config.a\<close> for an attribute \<open>a\<close> of the configuration.\<close>

definition config_attr ::
  "op \<Rightarrow> ('a \<Rightarrow> 'o pyval) \<Rightarrow> ('o \<Rightarrow> ('a, 'x, 'w) ext) \<Rightarrow> ('a, 'o, 'x, 'w) py" where
  "config_attr f wrap ext =
     bind_py (read_name ''config'' config) (\<lambda>c. call f [PObj c] wrap (ext c))"

definition summary_template :: string where
  "summary_template =
     ''This backend is called {0}, and is on version {1}. It has {2} qubit{3}. It '' @
     ''{4} OpenPulse programs. The basis gates supported on this device are {5}.'' @
     ''''"

text \<open>\<open>config = backend.configuration()\<close> and the printed summary of the basic features.\<close>

definition cell_summary :: "('o, 'x, 'w) sdk \<Rightarrow> (unit, 'o, 'x, 'w) py" where
  "cell_summary sdk =
     bind_py (read_name ''backend'' backend) (\<lambda>b.
     bind_py (call Op_configuration [PObj b] PObj (configuration sdk b)) (\<lambda>c.
     then_py (assign (\<lambda>s. s\<lparr> config := Some c \<rparr>)) (
     bind_py (config_attr Op_backend_name PStr (backend_name sdk)) (\<lambda>name.
     bind_py (config_attr Op_backend_version PStr (backend_version sdk)) (\<lambda>version.
     bind_py (config_attr Op_n_qubits PInt (n_qubits sdk)) (\<lambda>n.
     bind_py (config_attr Op_n_qubits PInt (n_qubits sdk)) (\<lambda>n'.
     bind_py (config_attr Op_open_pulse PBool (open_pulse sdk)) (\<lambda>pulse.
     bind_py (config_attr Op_basis_gates PStrs (basis_gates sdk)) (\<lambda>gates.
     print_py (Formatted summary_template
       [PStr name, PStr version, PInt n,
        PStr (if n' = 1 then '''' else ''s''),
        PStr (if pulse then ''supports'' else ''does not support''),
        PStrs gates]))))))))))"

text \<open>\<open>config.dt\<close>, \<open>config.meas_levels\<close>, \<open>config.dtm\<close>, \<open>config.meas_map\<close>\<close>

definition cell_dt :: "('o, 'x, 'w) sdk \<Rightarrow> (unit, 'o, 'x, 'w) py" where
  "cell_dt sdk = bind_py (config_attr Op_dt PFloat (dt sdk)) (\<lambda>v. display (PFloat v))"

definition cell_meas_levels :: "('o, 'x, 'w) sdk \<Rightarrow> (unit, 'o, 'x, 'w) py" where
  "cell_meas_levels sdk =
     bind_py (config_attr Op_meas_levels PInts (meas_levels sdk)) (\<lambda>v. display (PInts v))"

definition cell_dtm :: "('o, 'x, 'w) sdk \<Rightarrow> (unit, 'o, 'x, 'w) py" where
  "cell_dtm sdk = bind_py (config_attr Op_dtm PFloat (dtm sdk)) (\<lambda>v. display (PFloat v))"

definition cell_meas_map :: "('o, 'x, 'w) sdk \<Rightarrow> (unit, 'o, 'x, 'w) py" where
  "cell_meas_map sdk =
     bind_py (config_attr Op_meas_map PIntss (meas_map sdk)) (\<lambda>v. display (PIntss v))"

text \<open>\<open>config.drive(0)\<close>, \<open>config.measure(0)\<close>, \<open>config.acquire(0)\<close>\<close>

definition cell_drive :: "('o, 'x, 'w) sdk \<Rightarrow> (unit, 'o, 'x, 'w) py" where
  "cell_drive sdk =
     bind_py (read_name ''config'' config) (\<lambda>c.
     bind_py (call Op_drive [PObj c, PInt 0] PObj (drive sdk c 0)) (\<lambda>ch.
     display (PObj ch)))"

definition cell_measure :: "('o, 'x, 'w) sdk \<Rightarrow> (unit, 'o, 'x, 'w) py" where
  "cell_measure sdk =
     bind_py (read_name ''config'' config) (\<lambda>c.
     bind_py (call Op_measure [PObj c, PInt 0] PObj (measure_channel sdk c 0)) (\<lambda>ch.
     display (PObj ch)))"

definition cell_acquire :: "('o, 'x, 'w) sdk \<Rightarrow> (unit, 'o, 'x, 'w) py" where
  "cell_acquire sdk =
     bind_py (read_name ''config'' config) (\<lambda>c.
     bind_py (call Op_acquire [PObj c, PInt 0] PObj (acquire sdk c 0)) (\<lambda>ch.
     display (PObj ch)))"

text \<open>\<open>props = backend.properties()\<close>\<close>

definition cell_props :: "('o, 'x, 'w) sdk \<Rightarrow> (unit, 'o, 'x, 'w) py" where
  "cell_props sdk =
     bind_py (read_name ''backend'' backend) (\<lambda>b.
     bind_py (call Op_properties [PObj b] PObj (properties sdk b)) (\<lambda>p.
     assign (\<lambda>s. s\<lparr> props := Some p \<rparr>)))"

definition describe_template :: string where
  "describe_template =
     ''Qubit {0} has a \<newline>'' @
     ''  - T1 time of {1} microseconds\<newline>'' @
     ''  - T2 time of {2} microseconds\<newline>'' @
     ''  - U2 gate error of {3}\<newline>'' @
     ''  - U2 gate duration of {4} nanoseconds\<newline>'' @
     ''  - resonant frequency of {5} GHz''"

text \<open>\<open>def describe_qubit(qubit, properties)\<close>: the three conversion factors are local
  to the function.\<close>

definition describe_qubit ::
  "('o, 'x, 'w) sdk \<Rightarrow> int \<Rightarrow> 'o \<Rightarrow> (unit, 'o, 'x, 'w) py" where
  "describe_qubit sdk qubit properties' =
     (let us = 10 ^ 6; ns = 10 ^ 9; GHz' = 1 / 10 ^ 9 in
      bind_py (call Op_t1 [PObj properties', PInt qubit] PFloat (t1 sdk properties' qubit)) (\<lambda>a.
      bind_py (call Op_t2 [PObj properties', PInt qubit] PFloat (t2 sdk properties' qubit)) (\<lambda>b.
      bind_py (call Op_gate_error [PObj properties', PStr ''u2'', PInt qubit] PFloat
                 (gate_error sdk properties' ''u2'' qubit)) (\<lambda>c.
      bind_py (call Op_gate_length [PObj properties', PStr ''u2'', PInt qubit] PFloat
                 (gate_length sdk properties' ''u2'' qubit)) (\<lambda>d.
      bind_py (call Op_frequency [PObj properties', PInt qubit] PFloat
                 (frequency sdk properties' qubit)) (\<lambda>e.
      print_py (Formatted describe_template
        [PInt qubit, PFloat (a * us), PFloat (b * us), PFloat c, PFloat (d * ns),
         PFloat (e * GHz')])))))))"

text \<open>The cell that defines \<open>describe_qubit\<close> and then runs \<open>describe_qubit(0, props)\<close>.\<close>

definition cell_describe :: "('o, 'x, 'w) sdk \<Rightarrow> (unit, 'o, 'x, 'w) py" where
  "cell_describe sdk = bind_py (read_name ''props'' props) (\<lambda>p. describe_qubit sdk 0 p)"

text \<open>\<open>defaults = backend.defaults()\<close>\<close>

definition cell_defaults :: "('o, 'x, 'w) sdk \<Rightarrow> (unit, 'o, 'x, 'w) py" where
  "cell_defaults sdk =
     bind_py (read_name ''backend'' backend) (\<lambda>b.
     bind_py (call Op_defaults [PObj b] PObj (defaults_call sdk b)) (\<lambda>d.
     assign (\<lambda>s. s\<lparr> defaults := Some d \<rparr>)))"

definition drive_freq_template :: string where
  "drive_freq_template = ''DriveChannel(0) defaults to a modulation frequency of {} GHz.''"

definition meas_freq_template :: string where
  "meas_freq_template = ''MeasureChannel(0) defaults to a modulation frequency of {} GHz.''"

text \<open>The drive- and measure-frequency cell.\<close>

definition cell_frequencies :: "('o, 'x, 'w) sdk \<Rightarrow> (unit, 'o, 'x, 'w) py" where
  "cell_frequencies sdk =
     bind_py (read_name ''defaults'' defaults) (\<lambda>d.
     bind_py (call Op_qubit_freq_est [PObj d] PFloats (qubit_freq_est sdk d)) (\<lambda>xs.
     bind_py (getitem xs 0) (\<lambda>x.
     then_py (assign (\<lambda>s. s\<lparr> q0_freq := Some x \<rparr>)) (
     bind_py (read_name ''defaults'' defaults) (\<lambda>d'.
     bind_py (call Op_meas_freq_est [PObj d'] PFloats (meas_freq_est sdk d')) (\<lambda>ys.
     bind_py (getitem ys 0) (\<lambda>y.
     then_py (assign (\<lambda>s. s\<lparr> q0_meas_freq := Some y \<rparr>)) (
     then_py (assign (\<lambda>s. s\<lparr> GHz := Some (1 / 10 ^ 9) \<rparr>)) (
     bind_py (read_name ''q0_freq'' q0_freq) (\<lambda>f.
     bind_py (read_name ''GHz'' GHz) (\<lambda>g.
     then_py (print_py (Formatted drive_freq_template [PFloat (f * g)])) (
     bind_py (read_name ''q0_meas_freq'' q0_meas_freq) (\<lambda>f'.
     bind_py (read_name ''GHz'' GHz) (\<lambda>g'.
     print_py (Formatted meas_freq_template [PFloat (f' * g')])))))))))))))))"

text \<open>\<open>inst_map = defaults.instruction_schedule_map\<close>, \<open>print(inst_map)\<close>\<close>

definition cell_inst_map :: "('o, 'x, 'w) sdk \<Rightarrow> (unit, 'o, 'x, 'w) py" where
  "cell_inst_map sdk =
     bind_py (read_name ''defaults'' defaults) (\<lambda>d.
     bind_py (call Op_instruction_schedule_map [PObj d] PObj (instruction_schedule_map sdk d)) (\<lambda>m.
     then_py (assign (\<lambda>s. s\<lparr> inst_map := Some m \<rparr>)) (
     bind_py (read_name ''inst_map'' inst_map) (\<lambda>m'.
     bind_py (call Op_str [PObj m'] PStr (str_call sdk m')) (\<lambda>text.
     print_py (Plain text))))))"

text \<open>\<open>measure_schedule = inst_map.get('measure', [q for q in range(config.n_qubits)])\<close>,
  \<open>measure_schedule.draw()\<close>\<close>

definition cell_measure_schedule :: "('o, 'x, 'w) sdk \<Rightarrow> (unit, 'o, 'x, 'w) py" where
  "cell_measure_schedule sdk =
     bind_py (read_name ''inst_map'' inst_map) (\<lambda>m.
     bind_py (config_attr Op_n_qubits PInt (n_qubits sdk)) (\<lambda>n.
     bind_py (call Op_get ([PObj m, PStr ''measure'', PInts (map (\<lambda>q. q) (range_py n))] @ kw [])
                PObj (get sdk m ''measure'' (PInts (map (\<lambda>q. q) (range_py n))) [])) (\<lambda>sched.
     then_py (assign (\<lambda>s. s\<lparr> measure_schedule := Some sched \<rparr>)) (
     bind_py (read_name ''measure_schedule'' measure_schedule) (\<lambda>sched'.
     bind_py (call Op_draw [PObj sched'] PObj (draw sdk sched')) (\<lambda>fig.
     display (PObj fig)))))))"

text \<open>\<open>inst_map.has('x', 3)\<close>\<close>

definition cell_has :: "('o, 'x, 'w) sdk \<Rightarrow> (unit, 'o, 'x, 'w) py" where
  "cell_has sdk =
     bind_py (read_name ''inst_map'' inst_map) (\<lambda>m.
     bind_py (call Op_has [PObj m, PStr ''x'', PInt 3] PBool (has sdk m ''x'' (PInt 3))) (\<lambda>v.
     display (PBool v)))"

text \<open>\<open>inst_map.get('u1', 0, P0=3.1415)\<close>\<close>

definition cell_get_u1 :: "('o, 'x, 'w) sdk \<Rightarrow> (unit, 'o, 'x, 'w) py" where
  "cell_get_u1 sdk =
     bind_py (read_name ''inst_map'' inst_map) (\<lambda>m.
     bind_py (call Op_get ([PObj m, PStr ''u1'', PInt 0] @ kw [(''P0'', PFloat (31415 / 10000))])
                PObj (get sdk m ''u1'' (PInt 0) [(''P0'', PFloat (31415 / 10000))])) (\<lambda>sched.
     display (PObj sched)))"

text \<open>\<open>import qiskit.tools.jupyter\<close>, \<open>%qiskit_version_table\<close>, \<open>%qiskit_copyright\<close>\<close>

definition cell_version :: "('o, 'x, 'w) sdk \<Rightarrow> (unit, 'o, 'x, 'w) py" where
  "cell_version sdk =
     bind_py (call Op_import_jupyter [] PUnit (import_jupyter sdk)) (\<lambda>_.
     bind_py (call Op_qiskit_version_table [] PUnit (qiskit_version_table sdk)) (\<lambda>_.
     call Op_qiskit_copyright [] PUnit (qiskit_copyright sdk)))"

subsection \<open>The notebook\<close>

definition notebook :: "('o, 'x, 'w) sdk \<Rightarrow> (unit, 'o, 'x, 'w) py list" where
  "notebook sdk =
     [cell_backend sdk, cell_summary sdk, cell_dt sdk, cell_meas_levels sdk, cell_dtm sdk,
      cell_meas_map sdk, cell_drive sdk, cell_measure sdk, cell_acquire sdk, cell_props sdk,
      cell_describe sdk, cell_defaults sdk, cell_frequencies sdk, cell_inst_map sdk,
      cell_measure_schedule sdk, cell_has sdk, cell_get_u1 sdk, cell_version sdk]"


text \<open>One step of the session: the cell at position \<open>pc\<close> runs to its end without an
  exception, and the next cell is \<open>pc + 1\<close>.\<close>

inductive step ::
  "('o, 'x, 'w) sdk \<Rightarrow> nat \<times> ('o, 'x, 'w) session \<Rightarrow> nat \<times> ('o, 'x, 'w) session \<Rightarrow> bool"
  for sdk where
  run_cell: "pc < length (notebook sdk) \<Longrightarrow> (notebook sdk ! pc) s = (Inr (), s') \<Longrightarrow>
     step sdk (pc, s) (Suc pc, s')"

text \<open>The events a computation added to the log.\<close>

definition new_events ::
  "('o, 'x, 'w) session \<Rightarrow> ('o, 'x, 'w) session \<Rightarrow> ('o, 'x) event list" where
  "new_events s s' = drop (length (log s)) (log s')"

subsection \<open>A small library instance\<close>

text \<open>A library without hidden state, used to run the cells on concrete data: the backend is
  object 0, its configuration 1, its properties 2, its defaults 3, the instruction map 4,
  every schedule 5 and every figure 6.  The qubit count, the OpenPulse flag, the outcome
  of the T1 query and the two frequency lists are left open.\<close>

definition ret :: "'a \<Rightarrow> ('a, 'x, 'w) ext" where
  "ret v = (\<lambda>w. (Inr v, w))"

definition fail :: "'x \<Rightarrow> ('a, 'x, 'w) ext" where
  "fail x = (\<lambda>w. (Inl x, w))"

definition mock ::
  "int \<Rightarrow> bool \<Rightarrow> string + real \<Rightarrow> real list \<Rightarrow> real list \<Rightarrow> (nat, string, unit) sdk" where
  "mock n pulse t1_result qfreqs mfreqs = \<lparr>
     import_mock = ret (),
     FakeAlmaden = ret 0,
     configuration = (\<lambda>b. ret 1),
     backend_name = (\<lambda>c. ret ''fake_almaden''),
     backend_version = (\<lambda>c. ret ''1.4.6''),
     n_qubits = (\<lambda>c. ret n),
     open_pulse = (\<lambda>c. ret pulse),
     basis_gates = (\<lambda>c. ret [''u1'', ''u2'', ''u3'', ''cx'', ''id'']),
     dt = (\<lambda>c. ret (1 / 2 ^ 32)),
     meas_levels = (\<lambda>c. ret [1, 2]),
     dtm = (\<lambda>c. ret (1 / 2 ^ 32)),
     meas_map = (\<lambda>c. ret [range_py n]),
     drive = (\<lambda>c q. ret (100 + nat q)),
     measure_channel = (\<lambda>c q. ret (200 + nat q)),
     acquire = (\<lambda>c q. ret (300 + nat q)),
     properties = (\<lambda>b. ret 2),
     t1 = (\<lambda>p q. case t1_result of Inl x \<Rightarrow> fail x | Inr v \<Rightarrow> ret v),
     t2 = (\<lambda>p q. ret (1 / 2 ^ 13)),
     gate_error = (\<lambda>p g q. ret (1 / 2 ^ 10)),
     gate_length = (\<lambda>p g q. ret (1 / 2 ^ 25)),
     frequency = (\<lambda>p q. ret (5 * 10 ^ 9)),
     defaults_call = (\<lambda>b. ret 3),
     qubit_freq_est = (\<lambda>d. ret qfreqs),
     meas_freq_est = (\<lambda>d. ret mfreqs),
     instruction_schedule_map = (\<lambda>d. ret 4),
     str_call = (\<lambda>m. ret ''<InstructionScheduleMap>''),
     get = (\<lambda>m name qubits params. ret 5),
     draw = (\<lambda>sched. ret 6),
     has = (\<lambda>m name qubits. ret True),
     import_jupyter = ret (),
     qiskit_version_table = ret (),
     qiskit_copyright = ret () \<rparr>"

text \<open>The session in which the five names \<open>backend\<close>, \<open>config\<close>, \<open>props\<close>,
  \<open>defaults\<close> and \<open>inst_map\<close> are bound to the objects of that instance.\<close>

definition bound_session :: "(nat, string, unit) session" where
  "bound_session = (fresh ())\<lparr> backend := Some 0, config := Some 1, props := Some 2,
     defaults := Some 3, inst_map := Some 4 \<rparr>"

subsection \<open>Library exceptions in the call log\<close>

text \<open>A list of log entries is quiet when every call in it returned.\<close>

definition quiet :: "('o, 'x) event list \<Rightarrow> bool" where
  "quiet evs = list_all (\<lambda>ev. case ev_outcome ev of Returned v \<Rightarrow> True | Threw x \<Rightarrow> False) evs"

text \<open>The library exception that a result carries, if any.\<close>

fun library_error :: "'x pyerr + 'a \<Rightarrow> 'x option" where
  "library_error (Inl (Raised x)) = Some x"
| "library_error (Inl (NameError n)) = None"
| "library_error (Inl IndexError) = None"
| "library_error (Inr v) = None"

text \<open>The entries a computation added to the log account for its result: a result
  carrying the library exception \<open>x\<close> comes with a log whose last call threw \<open>x\<close> and whose
  earlier calls all returned; any other result comes with a quiet log.\<close>

definition accounts :: "'x pyerr + 'a \<Rightarrow> ('o, 'x) event list \<Rightarrow> bool" where
  "accounts r evs =
     (case library_error r of
        None \<Rightarrow> quiet evs
      | Some x \<Rightarrow> evs \<noteq> [] \<and> quiet (butlast evs) \<and> ev_outcome (last evs) = Threw x)"

text \<open>A computation is transparent when this holds from every session.\<close>

definition transparent :: "('a, 'o, 'x, 'w) py \<Rightarrow> bool" where
  "transparent m = (\<forall>s. \<exists>evs. log (snd (m s)) = log s @ evs \<and> accounts (fst (m s)) evs)"

subsection \<open>Pre- and postconditions of cells\<close>

text \<open>\<open>triple P m Q E\<close>: from a session satisfying \<open>P\<close>, the computation \<open>m\<close> either returns a
  value and a session satisfying \<open>Q\<close>, or raises an exception and leaves a session
  satisfying \<open>E\<close>.\<close>

definition triple ::
  "(('o, 'x, 'w) session \<Rightarrow> bool) \<Rightarrow> ('a, 'o, 'x, 'w) py \<Rightarrow>
   ('a \<Rightarrow> ('o, 'x, 'w) session \<Rightarrow> bool) \<Rightarrow> ('x pyerr \<Rightarrow> ('o, 'x, 'w) session \<Rightarrow> bool) \<Rightarrow> bool" where
  "triple P m Q E =
     (\<forall>s. P s \<longrightarrow> (case m s of (Inl e, s') \<Rightarrow> E e s' | (Inr v, s') \<Rightarrow> Q v s'))"

text \<open>The names bound by the cells before position \<open>pc\<close>: \<open>backend\<close> by cell 0,
  \<open>config\<close> by cell 1, \<open>props\<close> by cell 9, \<open>defaults\<close> by cell 11 and \<open>inst_map\<close> by
  cell 13 (cells counted from 0).\<close>

definition names_ok :: "nat \<Rightarrow> ('o, 'x, 'w) session \<Rightarrow> bool" where
  "names_ok pc s =
     ((1 \<le> pc \<longrightarrow> backend s \<noteq> None) \<and>
      (2 \<le> pc \<longrightarrow> config s \<noteq> None) \<and>
      (10 \<le> pc \<longrightarrow> props s \<noteq> None) \<and>
      (12 \<le> pc \<longrightarrow> defaults s \<noteq> None) \<and>
      (14 \<le> pc \<longrightarrow> inst_map s \<noteq> None))"

fun name_error :: "'x pyerr \<Rightarrow> bool" where
  "name_error (NameError n) = True"
| "name_error IndexError = False"
| "name_error (Raised x) = False"

subsection \<open>The sequence of library calls\<close>



section \<open>Properties\<close>

lemmas py_defs = return_py_def raise_py_def bind_py_def then_py_def call_def read_name_def
  assign_def print_py_def display_def getitem_def config_attr_def

lemmas mock_defs = mock_def ret_def fail_def fresh_def

subsection \<open>Unit conversions in \<open>describe_qubit\<close>\<close>



subsection \<open>The qubit list of the measurement lookup\<close>

text \<open>
  C10.  When \<open>inst_map\<close> and \<open>config\<close> are bound and \<open>config.n_qubits\<close> returns \<open>n\<close>,
  the second library call of the measurement cell is \<open>get\<close> on the instruction map with the
  name \<open>'measure'\<close> and the list \<open>[0, 1, ..., n - 1]\<close> (which has \<open>n\<close> entries, entry \<open>i\<close>
  being \<open>i\<close>, and is empty for \<open>n \<le> 0\<close>); the cell's outcome is that of this call followed
  by \<open>draw\<close>.
\<close>

theorem measure_lookup_all_qubits:
  assumes "inst_map s = Some m" and "config s = Some c"
      and "n_qubits sdk c (world s) = (Inr n, w1)"
  shows "ev_op (new_events s (snd (cell_measure_schedule sdk s)) ! 1) = Op_get \<and>
         ev_args (new_events s (snd (cell_measure_schedule sdk s)) ! 1) =
           [PObj m, PStr ''measure'', PList (map PInt [0..n - 1])] \<and>
         fst (cell_measure_schedule sdk s) =
           (case get sdk m ''measure'' (PList (map PInt [0..n - 1])) [] w1 of
              (Inl x, w2) \<Rightarrow> Inl (Raised x)
            | (Inr sched, w2) \<Rightarrow>
                (case draw sdk sched w2 of (Inl x, w3) \<Rightarrow> Inl (Raised x) | (Inr fig, w3) \<Rightarrow> Inr ())) \<and>
         length [0..n - 1] = nat n \<and> (\<forall>i < nat n. [0..n - 1] ! i = int i)"
  using assms
  by (simp add: cell_measure_schedule_def py_defs new_events_def range_py_def PInts_def kw_def nth_append
      split: prod.splits sum.splits)

theorem measure_lookup_all_qubits_witness:
  "inst_map bound_session = Some 4 \<and> config bound_session = Some 1 \<and>
   n_qubits (mock 3 True (Inr 1) [] []) 1 (world bound_session) = (Inr 3, ()) \<and>
   ev_args (new_events bound_session
     (snd (cell_measure_schedule (mock 3 True (Inr 1) [] []) bound_session)) ! 1) =
     [PObj 4, PStr ''measure'', PList [PInt 0, PInt 1, PInt 2]] \<and>
   fst (cell_measure_schedule (mock 3 True (Inr 1) [] []) bound_session) = Inr ()"
proof -
  have h1: "inst_map bound_session = Some 4" by (simp add: bound_session_def)
  have h2: "config bound_session = Some 1" by (simp add: bound_session_def)
  have h3: "n_qubits (mock 3 True (Inr 1) [] []) 1 (world bound_session) = (Inr 3, ())"
    by (simp add: mock_defs)
  have h4: "get (mock 3 True (Inr 1) [] []) 4 ''measure'' qs [] () = (Inr 5, ())" for qs
    by (simp add: mock_defs)
  have h5: "draw (mock 3 True (Inr 1) [] []) 5 () = (Inr 6, ())"
    by (simp add: mock_defs)
  have u: "[0..2] = [0, 1, 2::int]" by (simp add: upto.simps)
  show ?thesis
    using measure_lookup_all_qubits [OF h1 h2 h3] h1 h2 h3
    by (simp add: h4 h5 u)
qed

subsection \<open>Indexing the frequency estimates\<close>

text \<open>
  C9.  The frequency cell takes element 0 of \<open>defaults.qubit_freq_est\<close> and of
  \<open>defaults.meas_freq_est\<close> without testing their length: when \<open>defaults\<close> is bound and
  both attributes return lists, the cell raises \<open>IndexError\<close> exactly when one of the two
  lists is empty, and ends normally exactly when both have at least one entry.
\<close>

theorem frequency_index_guard:
  assumes "defaults s = Some d"
      and "qubit_freq_est sdk d (world s) = (Inr xs, w1)"
      and "meas_freq_est sdk d w1 = (Inr ys, w2)"
  shows "(fst (cell_frequencies sdk s) = Inl IndexError) = (xs = [] \<or> ys = []) \<and>
         (fst (cell_frequencies sdk s) = Inr ()) = (xs \<noteq> [] \<and> ys \<noteq> [])"
  using assms
  by (simp add: cell_frequencies_def py_defs)

theorem frequency_index_guard_witness:
  "defaults bound_session = Some 3 \<and>
   qubit_freq_est (mock 20 True (Inr 1) [5 * 10 ^ 9] [7 * 10 ^ 9]) 3 (world bound_session) =
     (Inr [5 * 10 ^ 9], ()) \<and>
   meas_freq_est (mock 20 True (Inr 1) [5 * 10 ^ 9] [7 * 10 ^ 9]) 3 () = (Inr [7 * 10 ^ 9], ()) \<and>
   fst (cell_frequencies (mock 20 True (Inr 1) [5 * 10 ^ 9] [7 * 10 ^ 9]) bound_session) = Inr () \<and>
   fst (cell_frequencies (mock 20 True (Inr 1) [5 * 10 ^ 9] []) bound_session) = Inl IndexError"
proof -
  have h1: "defaults bound_session = Some 3" by (simp add: bound_session_def)
  have h2: "qubit_freq_est (mock 20 True (Inr 1) [5 * 10 ^ 9] ms) 3 (world bound_session) =
     (Inr [5 * 10 ^ 9], ())" for ms
    by (simp add: mock_defs)
  have h3: "meas_freq_est (mock 20 True (Inr 1) [5 * 10 ^ 9] ms) 3 () = (Inr ms, ())" for ms
    by (simp add: mock_defs)
  show ?thesis
    using frequency_index_guard [OF h1 h2 h3, of "[7 * 10 ^ 9]"]
      frequency_index_guard [OF h1 h2 h3, of "[]"] h1 h2 h3
    by simp
qed

subsection \<open>The queries of \<open>describe_qubit\<close>\<close>






subsection \<open>Exceptions of the library reach the caller unchanged\<close>

text \<open>Transparency is preserved by sequencing and holds for every primitive step, hence
  for every cell.\<close>

lemma quiet_simps [simp]:
  "quiet []"
  "quiet (evs @ evs') = (quiet evs \<and> quiet evs')"
  "quiet [Event f a (Returned v)]"
  "\<not> quiet [Event f a (Threw x)]"
  by (simp_all add: quiet_def)

lemma accounts_nil [simp]:
  "accounts (Inr v) [] = True"
  "accounts (Inl (NameError n)) [] = True"
  "accounts (Inl IndexError) [] = True"
  by (simp_all add: accounts_def)

lemma accounts_append: "quiet evs \<Longrightarrow> accounts r evs' \<Longrightarrow> accounts r (evs @ evs')"
  by (cases "library_error r") (simp_all add: accounts_def butlast_append)

lemma accounts_Inl:
  "accounts (Inl e :: 'x pyerr + 'a) evs = accounts (Inl e :: 'x pyerr + 'b) evs"
  by (cases e) (simp_all add: accounts_def)

lemma transparentI:
  "(\<And>s. \<exists>evs. log (snd (m s)) = log s @ evs \<and> accounts (fst (m s)) evs) \<Longrightarrow> transparent m"
  by (simp add: transparent_def)

lemma transparentD:
  "transparent m \<Longrightarrow> \<exists>evs. log (snd (m s)) = log s @ evs \<and> accounts (fst (m s)) evs"
  by (simp add: transparent_def)

lemma transparent_return: "transparent (return_py v)"
  by (rule transparentI) (simp add: return_py_def)

lemma transparent_raise_name: "transparent (raise_py (NameError n))"
  by (rule transparentI) (simp add: raise_py_def)

lemma transparent_raise_index: "transparent (raise_py IndexError)"
  by (rule transparentI) (simp add: raise_py_def)

lemma transparent_read_name: "transparent (read_name n sel)"
  by (rule transparentI) (simp add: read_name_def split: option.splits)

lemma transparent_assign: "(\<And>s. log (upd s) = log s) \<Longrightarrow> transparent (assign upd)"
  by (rule transparentI) (simp add: assign_def)

lemma transparent_print: "transparent (print_py l)"
  by (rule transparentI) (simp add: print_py_def)

lemma transparent_display: "transparent (display v)"
  by (rule transparentI) (simp add: display_def)

lemma transparent_getitem: "transparent (getitem xs i)"
  by (simp add: getitem_def transparent_return transparent_raise_index)

lemma transparent_call:
  fixes ext :: "('a, 'x, 'w) ext" and wrap :: "'a \<Rightarrow> 'o pyval"
  shows "transparent (call f args wrap ext)"
proof (rule transparentI)
  fix s :: "('o, 'x, 'w) session"
  obtain r w where e: "ext (world s) = (r, w)" by (cases "ext (world s)")
  show "\<exists>evs. log (snd (call f args wrap ext s)) = log s @ evs \<and>
          accounts (fst (call f args wrap ext s)) evs"
  proof (cases r)
    case (Inl x)
    with e show ?thesis by (simp add: call_def accounts_def)
  next
    case (Inr v)
    with e show ?thesis by (simp add: call_def accounts_def)
  qed
qed

lemma transparent_bind:
  assumes m: "transparent m" and f: "\<And>v. transparent (f v)"
  shows "transparent (bind_py m f)"
proof (rule transparentI)
  fix s
  obtain r1 s1 where run1: "m s = (r1, s1)" by (cases "m s")
  from transparentD [OF m, of s] run1
  obtain evs1 where l1: "log s1 = log s @ evs1" and a1: "accounts r1 evs1" by auto
  show "\<exists>evs. log (snd (bind_py m f s)) = log s @ evs \<and> accounts (fst (bind_py m f s)) evs"
  proof (cases r1)
    case (Inl e)
    then have "bind_py m f s = (Inl e, s1)" by (simp add: bind_py_def run1)
    with l1 a1 Inl show ?thesis using accounts_Inl [of e evs1] by auto
  next
    case (Inr v)
    then have b: "bind_py m f s = f v s1" by (simp add: bind_py_def run1)
    from Inr a1 have q1: "quiet evs1" by (simp add: accounts_def)
    from transparentD [OF f, of v s1]
    obtain evs2 where l2: "log (snd (f v s1)) = log s1 @ evs2"
      and a2: "accounts (fst (f v s1)) evs2" by auto
    have "log (snd (bind_py m f s)) = log s @ (evs1 @ evs2)" by (simp add: b l1 l2)
    moreover have "accounts (fst (bind_py m f s)) (evs1 @ evs2)"
      unfolding b using q1 a2 by (rule accounts_append)
    ultimately show ?thesis by blast
  qed
qed

lemma transparent_then: "transparent m \<Longrightarrow> transparent k \<Longrightarrow> transparent (then_py m k)"
  by (simp add: then_py_def transparent_bind)

lemma transparent_config_attr: "transparent (config_attr f wrap ext)"
  by (simp add: config_attr_def transparent_bind transparent_read_name transparent_call)

lemmas transparent_intros = transparent_return transparent_read_name transparent_print
  transparent_display transparent_getitem transparent_call transparent_bind transparent_then
  transparent_config_attr

lemma transparent_describe_qubit: "transparent (describe_qubit sdk q p)"
  unfolding describe_qubit_def Let_def by (intro transparent_intros)

lemma transparent_cell_backend: "transparent (cell_backend sdk)"
  unfolding cell_backend_def by (intro transparent_intros transparent_assign) simp

lemma transparent_cell_summary: "transparent (cell_summary sdk)"
  unfolding cell_summary_def by (intro transparent_intros transparent_assign) simp

lemma transparent_display_cells:
  "transparent (cell_dt sdk)" "transparent (cell_meas_levels sdk)" "transparent (cell_dtm sdk)"
  "transparent (cell_meas_map sdk)" "transparent (cell_drive sdk)" "transparent (cell_measure sdk)"
  "transparent (cell_acquire sdk)" "transparent (cell_has sdk)" "transparent (cell_get_u1 sdk)"
  "transparent (cell_version sdk)" "transparent (cell_describe sdk)"
  unfolding cell_dt_def cell_meas_levels_def cell_dtm_def cell_meas_map_def cell_drive_def
    cell_measure_def cell_acquire_def cell_has_def cell_get_u1_def cell_version_def
    cell_describe_def
  by (intro transparent_intros transparent_describe_qubit)+

lemma transparent_cell_props: "transparent (cell_props sdk)"
  unfolding cell_props_def by (intro transparent_intros transparent_assign) simp

lemma transparent_cell_defaults: "transparent (cell_defaults sdk)"
  unfolding cell_defaults_def by (intro transparent_intros transparent_assign) simp

lemma transparent_cell_frequencies: "transparent (cell_frequencies sdk)"
  unfolding cell_frequencies_def by (intro transparent_intros transparent_assign) simp_all

lemma transparent_cell_inst_map: "transparent (cell_inst_map sdk)"
  unfolding cell_inst_map_def by (intro transparent_intros transparent_assign) simp

lemma transparent_cell_measure_schedule: "transparent (cell_measure_schedule sdk)"
  unfolding cell_measure_schedule_def by (intro transparent_intros transparent_assign) simp

lemma transparent_notebook: "c \<in> set (notebook sdk) \<Longrightarrow> transparent c"
  by (auto simp add: notebook_def transparent_cell_backend transparent_cell_summary
      transparent_display_cells transparent_cell_props transparent_cell_defaults
      transparent_cell_frequencies transparent_cell_inst_map transparent_cell_measure_schedule)

lemma quiet_no_threw: "quiet evs \<Longrightarrow> ev \<in> set evs \<Longrightarrow> ev_outcome ev \<noteq> Threw x"
  by (auto simp add: quiet_def list_all_iff split: outcome.splits)

lemma transparent_threw:
  assumes t: "transparent c" and ev: "Event f a (Threw x) \<in> set (new_events s (snd (c s)))"
  shows "fst (c s) = Inl (Raised x) \<and> last (log (snd (c s))) = Event f a (Threw x)"
proof -
  from transparentD [OF t, of s]
  obtain evs where l: "log (snd (c s)) = log s @ evs" and a: "accounts (fst (c s)) evs" by auto
  from ev l have mem: "Event f a (Threw x) \<in> set evs" by (simp add: new_events_def)
  have nq: "\<not> quiet evs" using quiet_no_threw [OF _ mem, of x] by auto
  with a obtain y where le: "library_error (fst (c s)) = Some y"
    and ne: "evs \<noteq> []" and q: "quiet (butlast evs)" and la: "ev_outcome (last evs) = Threw y"
    by (cases "library_error (fst (c s))") (auto simp add: accounts_def)
  from ne have split: "evs = butlast evs @ [last evs]" by simp
  from mem split have "Event f a (Threw x) \<in> set (butlast evs) \<or> Event f a (Threw x) = last evs"
    by (metis Un_iff empty_iff empty_set insert_iff list.simps(15) set_append)
  with q have eq: "last evs = Event f a (Threw x)"
    using quiet_no_threw [of "butlast evs" "Event f a (Threw x)" x] by auto
  with la have "y = x" by simp
  with le have "fst (c s) = Inl (Raised x)"
    by (cases "fst (c s)" rule: library_error.cases) simp_all
  moreover from l ne eq have "last (log (snd (c s))) = Event f a (Threw x)" by simp
  ultimately show ?thesis by simp
qed

lemma transparent_raised:
  assumes t: "transparent c" and r: "fst (c s) = Inl (Raised x)"
  shows "new_events s (snd (c s)) \<noteq> [] \<and> ev_outcome (last (new_events s (snd (c s)))) = Threw x"
proof -
  from transparentD [OF t, of s]
  obtain evs where l: "log (snd (c s)) = log s @ evs" and a: "accounts (fst (c s)) evs" by auto
  from a r have "evs \<noteq> [] \<and> ev_outcome (last evs) = Threw x" by (simp add: accounts_def)
  with l show ?thesis by (simp add: new_events_def)
qed

text \<open>
  C3.  For every cell of the notebook (and for \<open>describe_qubit\<close> on any qubit and
  properties object), from every session: if a library call made by the cell threw \<open>x\<close>,
  then the cell ends with exactly the exception \<open>x\<close> and that call is the last entry of the
  log (nothing runs after it, nothing catches or replaces it); and a cell ends with a
  library exception only if its last call threw it.
\<close>

theorem library_errors_propagate:
  assumes "c \<in> set (notebook sdk) \<or> c = describe_qubit sdk q p"
  shows "(Event f a (Threw x) \<in> set (new_events s (snd (c s))) \<longrightarrow>
            fst (c s) = Inl (Raised x) \<and> last (log (snd (c s))) = Event f a (Threw x)) \<and>
         (fst (c s) = Inl (Raised x) \<longrightarrow>
            new_events s (snd (c s)) \<noteq> [] \<and>
            ev_outcome (last (new_events s (snd (c s)))) = Threw x)"
proof -
  from assms have tc: "transparent c"
    using transparent_notebook transparent_describe_qubit by auto
  show ?thesis
  proof (intro conjI impI)
    assume "Event f a (Threw x) \<in> set (new_events s (snd (c s)))"
    from transparent_threw [OF tc this]
    show "fst (c s) = Inl (Raised x)" and "last (log (snd (c s))) = Event f a (Threw x)"
      by simp_all
  next
    assume "fst (c s) = Inl (Raised x)"
    from transparent_raised [OF tc this]
    show "new_events s (snd (c s)) \<noteq> []"
      and "ev_outcome (last (new_events s (snd (c s)))) = Threw x"
      by simp_all
  qed
qed

theorem library_errors_propagate_witness:
  "(cell_describe (mock 20 True (Inl ''BackendPropertyError'') [] [])
      \<in> set (notebook (mock 20 True (Inl ''BackendPropertyError'') [] [])) \<or>
    cell_describe (mock 20 True (Inl ''BackendPropertyError'') [] []) =
      describe_qubit (mock 20 True (Inl ''BackendPropertyError'') [] []) 0 2) \<and>
   Event Op_t1 [PObj 2, PInt 0] (Threw ''BackendPropertyError'')
      \<in> set (new_events bound_session
           (snd (cell_describe (mock 20 True (Inl ''BackendPropertyError'') [] []) bound_session))) \<and>
   fst (cell_describe (mock 20 True (Inl ''BackendPropertyError'') [] []) bound_session) =
     Inl (Raised ''BackendPropertyError'')"
proof -
  have h1: "cell_describe (mock 20 True (Inl ''BackendPropertyError'') [] [])
      \<in> set (notebook (mock 20 True (Inl ''BackendPropertyError'') [] [])) \<or>
    cell_describe (mock 20 True (Inl ''BackendPropertyError'') [] []) =
      describe_qubit (mock 20 True (Inl ''BackendPropertyError'') [] []) 0 2"
    by (simp add: notebook_def)
  have h2: "Event Op_t1 [PObj 2, PInt 0] (Threw ''BackendPropertyError'')
      \<in> set (new_events bound_session
           (snd (cell_describe (mock 20 True (Inl ''BackendPropertyError'') [] []) bound_session)))"
    by (simp add: cell_describe_def describe_qubit_def py_defs Let_def mock_defs
        bound_session_def new_events_def)
  show ?thesis
    using library_errors_propagate [OF h1, of Op_t1 "[PObj 2, PInt 0]" "''BackendPropertyError''"
        bound_session] h1 h2
    by simp
qed

subsection \<open>Names are bound before they are used\<close>

text \<open>Rules for \<open>triple\<close>, one per primitive step; the rule for a library call makes no
  assumption on what the call returns or does to the library state.\<close>

lemma triple_returns: "triple P m Q E \<Longrightarrow> P s \<Longrightarrow> m s = (Inr v, s') \<Longrightarrow> Q v s'"
  by (auto simp add: triple_def)

lemma triple_raises: "triple P m Q E \<Longrightarrow> P s \<Longrightarrow> m s = (Inl e, s') \<Longrightarrow> E e s'"
  by (auto simp add: triple_def)

lemma triple_pre: "triple P' m Q E \<Longrightarrow> (\<And>s. P s \<Longrightarrow> P' s) \<Longrightarrow> triple P m Q E"
  by (simp add: triple_def)

lemma triple_return: "triple (Q v) (return_py v) Q E"
  by (simp add: triple_def return_py_def)

lemma triple_raise: "triple (E e) (raise_py e) Q E"
  by (simp add: triple_def raise_py_def)

lemma triple_read_name:
  "triple (\<lambda>s. case sel s of None \<Rightarrow> E (NameError n) s | Some v \<Rightarrow> Q v s) (read_name n sel) Q E"
  by (simp add: triple_def read_name_def split: option.splits)

lemma triple_assign: "triple (\<lambda>s. Q () (upd s)) (assign upd) Q E"
  by (simp add: triple_def assign_def)

lemma triple_print: "triple (\<lambda>s. Q () (s\<lparr> stdout := stdout s @ [l] \<rparr>)) (print_py l) Q E"
  by (simp add: triple_def print_py_def)

lemma triple_display: "triple (\<lambda>s. Q () (s\<lparr> out := out s @ [v] \<rparr>)) (display v) Q E"
  by (simp add: triple_def display_def)

lemma triple_getitem: "triple (\<lambda>s. (\<forall>x. Q x s) \<and> E IndexError s) (getitem xs i) Q E"
  by (simp add: triple_def getitem_def return_py_def raise_py_def)

lemma triple_call:
  "triple (\<lambda>s. (\<forall>v w. Q v (s\<lparr> log := log s @ [Event f args (Returned (wrap v))], world := w \<rparr>)) \<and>
               (\<forall>x w. E (Raised x) (s\<lparr> log := log s @ [Event f args (Threw x)], world := w \<rparr>)))
     (call f args wrap ext) Q E"
  by (simp add: triple_def call_def split: prod.splits sum.splits)

lemma triple_bind:
  assumes "\<And>v. triple (R v) (f v) Q E" and "triple P m R E"
  shows "triple P (bind_py m f) Q E"
  unfolding triple_def
proof (intro allI impI)
  fix s
  assume p: "P s"
  obtain r s1 where run: "m s = (r, s1)" by (cases "m s")
  from assms(2) p run have first: "case r of Inl e \<Rightarrow> E e s1 | Inr v \<Rightarrow> R v s1"
    by (simp add: triple_def split: prod.splits)
  show "case bind_py m f s of (Inl e, s') \<Rightarrow> E e s' | (Inr v, s') \<Rightarrow> Q v s'"
  proof (cases r)
    case (Inl e)
    with first run show ?thesis by (simp add: bind_py_def)
  next
    case (Inr v)
    with first have "R v s1" by simp
    with assms(1) [of v] have "case f v s1 of (Inl e, s') \<Rightarrow> E e s' | (Inr v, s') \<Rightarrow> Q v s'"
      by (simp add: triple_def)
    with Inr run show ?thesis by (simp add: bind_py_def)
  qed
qed

lemma triple_then:
  assumes "triple R k Q E" and "triple P m (\<lambda>_. R) E"
  shows "triple P (then_py m k) Q E"
  unfolding then_py_def using assms by (rule triple_bind)

lemmas triple_rules = triple_bind triple_then triple_return triple_raise triple_read_name
  triple_assign triple_print triple_display triple_getitem triple_call

lemma names_cell_backend:
  "triple (names_ok 0) (cell_backend sdk) (\<lambda>_. names_ok 1) (\<lambda>e _. \<not> name_error e)"
  unfolding cell_backend_def config_attr_def describe_qubit_def Let_def
  by (rule triple_pre, (rule triple_rules)+) (auto simp add: names_ok_def)

lemma names_cell_summary:
  "triple (names_ok 1) (cell_summary sdk) (\<lambda>_. names_ok 2) (\<lambda>e _. \<not> name_error e)"
  unfolding cell_summary_def config_attr_def describe_qubit_def Let_def
  by (rule triple_pre, (rule triple_rules)+) (auto simp add: names_ok_def)

lemma names_cell_dt:
  "triple (names_ok 2) (cell_dt sdk) (\<lambda>_. names_ok 3) (\<lambda>e _. \<not> name_error e)"
  unfolding cell_dt_def config_attr_def describe_qubit_def Let_def
  by (rule triple_pre, (rule triple_rules)+) (auto simp add: names_ok_def)

lemma names_cell_meas_levels:
  "triple (names_ok 3) (cell_meas_levels sdk) (\<lambda>_. names_ok 4) (\<lambda>e _. \<not> name_error e)"
  unfolding cell_meas_levels_def config_attr_def describe_qubit_def Let_def
  by (rule triple_pre, (rule triple_rules)+) (auto simp add: names_ok_def)

lemma names_cell_dtm:
  "triple (names_ok 4) (cell_dtm sdk) (\<lambda>_. names_ok 5) (\<lambda>e _. \<not> name_error e)"
  unfolding cell_dtm_def config_attr_def describe_qubit_def Let_def
  by (rule triple_pre, (rule triple_rules)+) (auto simp add: names_ok_def)

lemma names_cell_meas_map:
  "triple (names_ok 5) (cell_meas_map sdk) (\<lambda>_. names_ok 6) (\<lambda>e _. \<not> name_error e)"
  unfolding cell_meas_map_def config_attr_def describe_qubit_def Let_def
  by (rule triple_pre, (rule triple_rules)+) (auto simp add: names_ok_def)

lemma names_cell_drive:
  "triple (names_ok 6) (cell_drive sdk) (\<lambda>_. names_ok 7) (\<lambda>e _. \<not> name_error e)"
  unfolding cell_drive_def config_attr_def describe_qubit_def Let_def
  by (rule triple_pre, (rule triple_rules)+) (auto simp add: names_ok_def)

lemma names_cell_measure:
  "triple (names_ok 7) (cell_measure sdk) (\<lambda>_. names_ok 8) (\<lambda>e _. \<not> name_error e)"
  unfolding cell_measure_def config_attr_def describe_qubit_def Let_def
  by (rule triple_pre, (rule triple_rules)+) (auto simp add: names_ok_def)

lemma names_cell_acquire:
  "triple (names_ok 8) (cell_acquire sdk) (\<lambda>_. names_ok 9) (\<lambda>e _. \<not> name_error e)"
  unfolding cell_acquire_def config_attr_def describe_qubit_def Let_def
  by (rule triple_pre, (rule triple_rules)+) (auto simp add: names_ok_def)

lemma names_cell_props:
  "triple (names_ok 9) (cell_props sdk) (\<lambda>_. names_ok 10) (\<lambda>e _. \<not> name_error e)"
  unfolding cell_props_def config_attr_def describe_qubit_def Let_def
  by (rule triple_pre, (rule triple_rules)+) (auto simp add: names_ok_def)

lemma names_cell_describe:
  "triple (names_ok 10) (cell_describe sdk) (\<lambda>_. names_ok 11) (\<lambda>e _. \<not> name_error e)"
  unfolding cell_describe_def config_attr_def describe_qubit_def Let_def
  by (rule triple_pre, (rule triple_rules)+) (auto simp add: names_ok_def)

lemma names_cell_defaults:
  "triple (names_ok 11) (cell_defaults sdk) (\<lambda>_. names_ok 12) (\<lambda>e _. \<not> name_error e)"
  unfolding cell_defaults_def config_attr_def describe_qubit_def Let_def
  by (rule triple_pre, (rule triple_rules)+) (auto simp add: names_ok_def)

lemma names_cell_frequencies:
  "triple (names_ok 12) (cell_frequencies sdk) (\<lambda>_. names_ok 13) (\<lambda>e _. \<not> name_error e)"
  unfolding cell_frequencies_def config_attr_def describe_qubit_def Let_def
  by (rule triple_pre, (rule triple_rules)+) (auto simp add: names_ok_def)

lemma names_cell_inst_map:
  "triple (names_ok 13) (cell_inst_map sdk) (\<lambda>_. names_ok 14) (\<lambda>e _. \<not> name_error e)"
  unfolding cell_inst_map_def config_attr_def describe_qubit_def Let_def
  by (rule triple_pre, (rule triple_rules)+) (auto simp add: names_ok_def)

lemma names_cell_measure_schedule:
  "triple (names_ok 14) (cell_measure_schedule sdk) (\<lambda>_. names_ok 15) (\<lambda>e _. \<not> name_error e)"
  unfolding cell_measure_schedule_def config_attr_def describe_qubit_def Let_def
  by (rule triple_pre, (rule triple_rules)+) (auto simp add: names_ok_def)

lemma names_cell_has:
  "triple (names_ok 15) (cell_has sdk) (\<lambda>_. names_ok 16) (\<lambda>e _. \<not> name_error e)"
  unfolding cell_has_def config_attr_def describe_qubit_def Let_def
  by (rule triple_pre, (rule triple_rules)+) (auto simp add: names_ok_def)

lemma names_cell_get_u1:
  "triple (names_ok 16) (cell_get_u1 sdk) (\<lambda>_. names_ok 17) (\<lambda>e _. \<not> name_error e)"
  unfolding cell_get_u1_def config_attr_def describe_qubit_def Let_def
  by (rule triple_pre, (rule triple_rules)+) (auto simp add: names_ok_def)

lemma names_cell_version:
  "triple (names_ok 17) (cell_version sdk) (\<lambda>_. names_ok 18) (\<lambda>e _. \<not> name_error e)"
  unfolding cell_version_def config_attr_def describe_qubit_def Let_def
  by (rule triple_pre, (rule triple_rules)+) (auto simp add: names_ok_def)

lemmas names_cells =
  names_cell_backend names_cell_summary names_cell_dt names_cell_meas_levels names_cell_dtm
  names_cell_meas_map names_cell_drive names_cell_measure names_cell_acquire names_cell_props
  names_cell_describe names_cell_defaults names_cell_frequencies names_cell_inst_map
  names_cell_measure_schedule names_cell_has names_cell_get_u1 names_cell_version

lemma notebook_nth:
  "notebook sdk ! 0 = cell_backend sdk" "notebook sdk ! 1 = cell_summary sdk"
  "notebook sdk ! 2 = cell_dt sdk" "notebook sdk ! 3 = cell_meas_levels sdk"
  "notebook sdk ! 4 = cell_dtm sdk" "notebook sdk ! 5 = cell_meas_map sdk"
  "notebook sdk ! 6 = cell_drive sdk" "notebook sdk ! 7 = cell_measure sdk"
  "notebook sdk ! 8 = cell_acquire sdk" "notebook sdk ! 9 = cell_props sdk"
  "notebook sdk ! 10 = cell_describe sdk" "notebook sdk ! 11 = cell_defaults sdk"
  "notebook sdk ! 12 = cell_frequencies sdk" "notebook sdk ! 13 = cell_inst_map sdk"
  "notebook sdk ! 14 = cell_measure_schedule sdk" "notebook sdk ! 15 = cell_has sdk"
  "notebook sdk ! 16 = cell_get_u1 sdk" "notebook sdk ! 17 = cell_version sdk"
  "notebook sdk ! Suc 0 = cell_summary sdk"
  by (simp_all add: notebook_def)

lemma length_notebook: "length (notebook sdk) = 18"
  by (simp add: notebook_def)

lemma names_notebook:
  assumes "pc < length (notebook sdk)"
  shows "triple (names_ok pc) (notebook sdk ! pc) (\<lambda>_. names_ok (Suc pc)) (\<lambda>e _. \<not> name_error e)"
proof -
  from assms have "pc < 18" by (simp add: length_notebook)
  then consider "pc = 0" | "pc = 1" | "pc = 2" | "pc = 3" | "pc = 4" | "pc = 5" | "pc = 6"
    | "pc = 7" | "pc = 8" | "pc = 9" | "pc = 10" | "pc = 11" | "pc = 12" | "pc = 13"
    | "pc = 14" | "pc = 15" | "pc = 16" | "pc = 17"
    by atomize_elim presburger
  then show ?thesis
    by cases (use names_cells [of sdk] in \<open>simp_all add: notebook_nth numeral_2_eq_2 [symmetric]\<close>)
qed

lemma names_ok_fresh: "names_ok 0 (fresh w)"
  by (simp add: names_ok_def)

lemma step_names_ok:
  assumes "step sdk (pc, s) (pc', s')" and "names_ok pc s"
  shows "names_ok pc' s'"
  using assms
proof (cases rule: step.cases)
  case run_cell
  from triple_returns [OF names_notebook [OF run_cell(2)] assms(2) run_cell(3)] run_cell(1)
  show ?thesis by simp
qed

lemma reachable_names_ok:
  assumes "(step sdk)\<^sup>*\<^sup>* (0, fresh w) (pc, s)"
  shows "names_ok pc s"
  using assms
proof (induction rule: rtranclp_induct2)
  case refl
  show ?case by (rule names_ok_fresh)
next
  case (step pc s pc' s')
  then show ?case by (simp add: step_names_ok)
qed

lemma step_deterministic:
  assumes "step sdk c c1" and "step sdk c c2"
  shows "c1 = c2"
  using assms by (auto elim!: step.cases)

text \<open>Run out of order, a cell does meet an unbound name.\<close>

lemma out_of_order_name_error: "fst (cell_dt sdk (fresh w)) = Inl (NameError ''config'')"
  by (simp add: cell_dt_def py_defs fresh_def)

text \<open>
  C6.  The cells run one after the other: a step runs the cell at position \<open>pc\<close> to its end
  and moves to \<open>pc + 1\<close>, and every configuration has at most one successor, so there is
  no interleaving.  In every configuration reached from the fresh session, the names bound
  by the earlier cells (\<open>backend\<close>, \<open>config\<close>, \<open>props\<close>, \<open>defaults\<close>, \<open>inst_map\<close>) are
  bound, and the next cell never raises \<open>NameError\<close>: no name is used before it is bound,
  whatever the library returns.
\<close>

theorem names_bound_before_use:
  assumes "(step sdk)\<^sup>*\<^sup>* (0, fresh w) (pc, s)"
  shows "names_ok pc s \<and>
         (pc < length (notebook sdk) \<longrightarrow> (\<forall>n. fst ((notebook sdk ! pc) s) \<noteq> Inl (NameError n))) \<and>
         (\<forall>c1 c2. step sdk (pc, s) c1 \<and> step sdk (pc, s) c2 \<longrightarrow> c1 = c2)"
proof (intro conjI impI allI)
  show ok: "names_ok pc s" using assms by (rule reachable_names_ok)
  show "fst ((notebook sdk ! pc) s) \<noteq> Inl (NameError n)" if "pc < length (notebook sdk)" for n
  proof
    assume e: "fst ((notebook sdk ! pc) s) = Inl (NameError n)"
    then have "(notebook sdk ! pc) s = (Inl (NameError n), snd ((notebook sdk ! pc) s))"
      by (metis prod.collapse)
    from triple_raises [OF names_notebook [OF that] ok this]
    show False by simp
  qed
  show "c1 = c2" if "step sdk (pc, s) c1 \<and> step sdk (pc, s) c2" for c1 c2
    using that step_deterministic by blast
qed

lemma mock_cell_backend:
  "cell_backend (mock n pulse t1r qf mf) (fresh ()) =
     (Inr (), (fresh ())\<lparr> backend := Some 0,
        log := [Event Op_import_mock [] (Returned PNone),
                Event Op_FakeAlmaden [] (Returned (PObj 0))] \<rparr>)"
  by (simp add: cell_backend_def py_defs mock_defs PUnit_def)

theorem names_bound_before_use_witness:
  "(step (mock 20 True (Inr 1) [] []))\<^sup>*\<^sup>* (0, fresh ())
     (1, (fresh ())\<lparr> backend := Some 0,
        log := [Event Op_import_mock [] (Returned PNone),
                Event Op_FakeAlmaden [] (Returned (PObj 0))] \<rparr>) \<and>
   1 < length (notebook (mock 20 True (Inr 1) [] [])) \<and>
   fst ((notebook (mock 20 True (Inr 1) [] []) ! 1) ((fresh ())\<lparr> backend := Some 0,
        log := [Event Op_import_mock [] (Returned PNone),
                Event Op_FakeAlmaden [] (Returned (PObj 0))] \<rparr>)) \<noteq> Inl (NameError ''backend'')"
proof -
  have "step (mock 20 True (Inr 1) [] []) (0, fresh ())
     (Suc 0, (fresh ())\<lparr> backend := Some 0,
        log := [Event Op_import_mock [] (Returned PNone),
                Event Op_FakeAlmaden [] (Returned (PObj 0))] \<rparr>)"
    by (rule step.run_cell) (simp_all add: length_notebook notebook_nth mock_cell_backend)
  then have reach: "(step (mock 20 True (Inr 1) [] []))\<^sup>*\<^sup>* (0, fresh ())
     (1, (fresh ())\<lparr> backend := Some 0,
        log := [Event Op_import_mock [] (Returned PNone),
                Event Op_FakeAlmaden [] (Returned (PObj 0))] \<rparr>)"
    by auto
  have len: "1 < length (notebook (mock 20 True (Inr 1) [] []))"
    by (simp add: length_notebook)
  show ?thesis
    using names_bound_before_use [OF reach] reach len by blast
qed

subsection \<open>Straight-line cells and the one value-dependent text\<close>

































subsection \<open>What the cells present\<close>

text \<open>Each lemma reads off, from the log and the output of a cell that ended normally, the
  values the library returned and what the cell printed or displayed.\<close>

lemma PFloats_eq [simp]: "(PFloats xs = PFloats ys) = (xs = ys)"
  by (simp add: PFloats_def inj_map_eq_map inj_on_def)

lemma PStrs_eq [simp]: "(PStrs xs = PStrs ys) = (xs = ys)"
  by (simp add: PStrs_def inj_map_eq_map inj_on_def)






















end
